theory Spec2Isabelle
  imports Main "HOL-Library.Word"
begin

section \<open>Context Generator: \<open>src/middleware.ts\<close>\<close>

subsection \<open>Bytes to lowercase hexadecimal: \<open>toHex\<close>\<close>

text \<open>An element of a \<open>Uint8Array\<close> is an unsigned 8-bit integer.\<close>

type_synonym byte = "8 word"

text \<open>\<open>new Uint8Array(n)\<close> is a buffer of \<open>n\<close> zero bytes.\<close>

definition Uint8Array :: "nat \<Rightarrow> byte list" where
  "Uint8Array n = replicate n 0"

text \<open>
  \<open>Number.prototype.toString(16)\<close> on a non-negative integer: its digits in base
  16, lowercase, without leading zeros, and \<open>"0"\<close> for zero.
\<close>

definition hexDigit :: "nat \<Rightarrow> char" where
  "hexDigit d = ''0123456789abcdef'' ! d"

fun toString16 :: "nat \<Rightarrow> string" where
  "toString16 n =
     (if n < 16 then [hexDigit n] else toString16 (n div 16) @ [hexDigit (n mod 16)])"

declare toString16.simps [simp del]

text \<open>
  \<open>String.prototype.padStart(targetLength, padString)\<close>: a string that is long
  enough, or an empty padding, leaves the string as it is; otherwise the padding
  is repeated and cut to the missing length, and put in front.
\<close>

definition padStart :: "nat \<Rightarrow> string \<Rightarrow> string \<Rightarrow> string" where
  "padStart targetLength padString s =
     (if targetLength \<le> length s \<or> padString = [] then s
      else take (targetLength - length s)
             (concat (replicate (targetLength - length s) padString)) @ s)"

text \<open>
  \<^verbatim>\<open>
  function toHex(buffer: Uint8Array): string {
    return Array.from(buffer, (byte) => byte.toString(16).padStart(2, '0')).join('');
  }
  \<close>
\<close>

definition toHex :: "byte list \<Rightarrow> string" where
  "toHex buffer = concat (map (\<lambda>byte. padStart 2 ''0'' (toString16 (unat byte))) buffer)"

subsection \<open>The random source\<close>

text \<open>
  The bytes that the cryptographic random generator of the runtime will hand out,
  in order: an unending supply, of which every call consumes a prefix. Every
  sequence of bytes is a possible supply. \<open>crypto.getRandomValues(array)\<close>
  overwrites the whole array with the next bytes; the Web Crypto API makes it
  throw a \<open>QuotaExceededError\<close> for an array of more than 65536 bytes, the only
  failure it has.
\<close>

type_synonym random_source = "nat \<Rightarrow> byte"

datatype error = QuotaExceededError

definition getRandomValues ::
    "byte list \<Rightarrow> random_source \<Rightarrow> error + (byte list \<times> random_source)" where
  "getRandomValues array rnd =
     (if 65536 < length array then Inl QuotaExceededError
      else Inr (map rnd [0..<length array], \<lambda>i. rnd (length array + i)))"

subsection \<open>\<open>generateTraceParent\<close>\<close>

text \<open>
  The identifiers are display strings. The result of \<open>generateTraceParent\<close> has
  the fields \<open>traceId\<close> and \<open>spanId\<close> next to \<open>traceParent\<close>; \<open>getIds\<close> of the
  Context Reader returns an object with the same two fields, and the span context
  of the tracing API carries them too. The three objects are records that extend
  one record, so that the field names of the source are kept.
\<close>

record Ids =
  traceId :: string
  spanId :: string

text \<open>
  \<^verbatim>\<open>
  const version = new Uint8Array([0]);
  const versionHex = toHex(version);
  const traceId = new Uint8Array(16);
  crypto.getRandomValues(traceId);
  const traceIdHex = toHex(traceId);
  const spanId = new Uint8Array(8);
  crypto.getRandomValues(spanId);
  const spanIdHex = toHex(spanId);
  const flags = '01';
  const traceParent = `${versionHex}-${traceIdHex}-${spanIdHex}-${flags}`;
  return { traceParent, traceId: traceIdHex, spanId: spanIdHex }
  \<close>
  The random source is threaded through: the function returns what is left of it.
  An exception of \<open>getRandomValues\<close> leaves the function at once.
\<close>

record TraceParent = Ids +
  traceParent :: string

definition generateTraceParent :: "random_source \<Rightarrow> error + (TraceParent \<times> random_source)" where
  "generateTraceParent rnd =
     (let version = [0];
          versionHex = toHex version
      in case getRandomValues (Uint8Array 16) rnd of
           Inl e \<Rightarrow> Inl e
         | Inr (traceIdBytes, rnd1) \<Rightarrow>
             let traceIdHex = toHex traceIdBytes
             in case getRandomValues (Uint8Array 8) rnd1 of
                  Inl e \<Rightarrow> Inl e
                | Inr (spanIdBytes, rnd2) \<Rightarrow>
                    let spanIdHex = toHex spanIdBytes;
                        flags = ''01'';
                        tp = versionHex @ ''-'' @ traceIdHex @ ''-'' @ spanIdHex @ ''-'' @ flags
                    in Inr (\<lparr>traceId = traceIdHex, spanId = spanIdHex, traceParent = tp\<rparr>, rnd2))"

subsection \<open>Requests, headers and the console\<close>

text \<open>
  A \<open>Headers\<close> object, as \<open>get\<close> reads it: header names are case-insensitive, so
  the object is a map from the lowercased name to the value. \<open>new Headers(init)\<close>
  copies, \<open>set\<close> replaces the value under a name or adds the name. \<open>set\<close> strips
  white space around the value and rejects names and values that are not header
  text; the one call of the middleware passes the name \<open>traceparent\<close> and a string
  of hexadecimal digits and dashes, which is stored as it is.
\<close>

type_synonym Headers = "string \<rightharpoonup> string"

definition toLowerCase :: "string \<Rightarrow> string" where
  "toLowerCase s =
     map (\<lambda>c. case map_of (zip ''ABCDEFGHIJKLMNOPQRSTUVWXYZ'' ''abcdefghijklmnopqrstuvwxyz'') c of
                None \<Rightarrow> c
              | Some l \<Rightarrow> l) s"

definition Headers_new :: "Headers \<Rightarrow> Headers" where
  "Headers_new init = init"

definition Headers_get :: "Headers \<Rightarrow> string \<Rightarrow> string option" where
  "Headers_get hs name = hs (toLowerCase name)"

definition Headers_set :: "Headers \<Rightarrow> string \<Rightarrow> string \<Rightarrow> Headers" where
  "Headers_set hs name v = hs(toLowerCase name \<mapsto> v)"

record NextRequest =
  "method" :: string
  url :: string
  headers :: Headers

text \<open>
  What the middleware acts on besides its argument: the random source, and the
  console, the list of the lines written so far, oldest first.
\<close>

record Runtime =
  crypto :: random_source
  console :: "string list"

definition console_info :: "string \<Rightarrow> Runtime \<Rightarrow> Runtime" where
  "console_info line rt = rt\<lparr>console := console rt @ [line]\<rparr>"

text \<open>
  \<open>NextResponse.next(init)\<close> tells the framework to go on with the request. Of the
  object \<open>{...req, headers}\<close> that the middleware passes, the model keeps the
  \<open>headers\<close> entry, which is written after the spread and so is the \<open>Headers\<close>
  object the middleware built: it is the header set that the middleware forwards.
  What the framework does with it afterwards is not code of this repository.
\<close>

datatype NextResponse = NextResponse_next (forwarded: Headers)

subsection \<open>\<open>middleware\<close>\<close>

text \<open>
  \<^verbatim>\<open>
  const { traceParent, traceId, spanId } = generateTraceParent();
  console.info(`[Request log from middleware]\ttraceId=${traceId}\tspanId=${spanId}\tmethod=${req.method}\turl=${req.url}`);
  const headers = new Headers(req.headers);
  headers.set('traceparent', traceParent);
  return NextResponse.next({ ...req, headers });
  \<close>
  The result is the response together with the runtime as the call leaves it, or
  the exception that ended the call. The framework forwards the request after the
  middleware has returned, so what the console holds at the return was written
  before the request is forwarded.
\<close>

abbreviation TAB :: string where
  "TAB \<equiv> [CHR 0x09]"

definition middleware :: "NextRequest \<Rightarrow> Runtime \<Rightarrow> error + (NextResponse \<times> Runtime)" where
  "middleware req rt =
     (case generateTraceParent (crypto rt) of
        Inl e \<Rightarrow> Inl e
      | Inr (tp, rnd) \<Rightarrow>
          let rt1 = rt\<lparr>crypto := rnd\<rparr>;
              rt2 = console_info
                      (''[Request log from middleware]'' @ TAB @ ''traceId='' @ traceId tp
                         @ TAB @ ''spanId='' @ spanId tp @ TAB @ ''method='' @ method req
                         @ TAB @ ''url='' @ url req) rt1;
              hs = Headers_new (headers req);
              hs' = Headers_set hs ''traceparent'' (traceParent tp)
          in Inr (NextResponse_next hs', rt2))"


section \<open>Context Reader: \<open>src/util/ids.ts\<close>\<close>

text \<open>The span context of the tracing API: the two identifiers, and more.\<close>

record SpanContext = Ids +
  traceFlags :: nat

text \<open>
  A span exposes its context through \<open>spanContext()\<close>. The active context returned
  by \<open>context.active()\<close> either holds a span or does not: \<open>trace.getSpan\<close> yields
  the span or \<open>undefined\<close>, which is \<open>None\<close> here.
\<close>

datatype Span = Span (spanContext: SpanContext)

datatype Context = Context (getSpan: "Span option")

text \<open>
  \<^verbatim>\<open>
  const span = trace.getSpan(context.active());
  const { traceId, spanId } = span?.spanContext() ?? { traceId: 'null', spanId: 'null' }
  return { traceId, spanId }
  \<close>
  The ambient active context is the argument. \<open>span?.spanContext()\<close> is
  \<open>map_option spanContext span\<close>, and \<open>??\<close> takes its right operand exactly when the
  left one is \<open>undefined\<close>.
\<close>

definition getIds :: "Context \<Rightarrow> Ids" where
  "getIds active =
     (let span = getSpan active in
      case map_option spanContext span of
        None \<Rightarrow> \<lparr>traceId = ''null'', spanId = ''null''\<rparr>
      | Some sc \<Rightarrow> \<lparr>traceId = traceId sc, spanId = spanId sc\<rparr>)"


section \<open>Carrier string: grammar and codec\<close>

subsection \<open>The grammar of the Carrier string\<close>

text \<open>
  The regular expression \<^verbatim>\<open>^[0-9a-f]{2}-[0-9a-f]{32}-[0-9a-f]{16}-[0-9a-f]{2}$\<close>
  as a matcher: a pattern is a list of items, \<open>Hex n\<close> for \<^verbatim>\<open>[0-9a-f]{n}\<close> and
  \<open>Dash\<close> for the character \<^verbatim>\<open>-\<close>, and the whole string has to be consumed.
\<close>

definition isLowerHex :: "char \<Rightarrow> bool" where
  "isLowerHex c = (c \<in> set ''0123456789abcdef'')"

datatype item = Hex nat | Dash

fun matches :: "item list \<Rightarrow> string \<Rightarrow> bool" where
  "matches [] s = (s = [])"
| "matches (Dash # its) [] = False"
| "matches (Dash # its) (c # cs) = (c = CHR ''-'' \<and> matches its cs)"
| "matches (Hex 0 # its) s = matches its s"
| "matches (Hex (Suc n) # its) [] = False"
| "matches (Hex (Suc n) # its) (c # cs) = (isLowerHex c \<and> matches (Hex n # its) cs)"

definition carrierGrammar :: "string \<Rightarrow> bool" where
  "carrierGrammar s = matches [Hex 2, Dash, Hex 32, Dash, Hex 16, Dash, Hex 2] s"

subsection \<open>TraceContext and its encoding\<close>

text \<open>
  The TraceContext of the data model: a version, a 16-byte trace identifier, an
  8-byte span identifier and one byte of flags. It is valid when the version is 0,
  the identifiers have their lengths and neither is all zero.
\<close>

record TraceContext =
  tc_version :: byte
  tc_traceId :: "byte list"
  tc_spanId :: "byte list"
  tc_flags :: byte

definition allZero :: "byte list \<Rightarrow> bool" where
  "allZero bs = list_all (\<lambda>b. b = 0) bs"

definition valid :: "TraceContext \<Rightarrow> bool" where
  "valid x = (tc_version x = 0
     \<and> length (tc_traceId x) = 16 \<and> \<not> allZero (tc_traceId x)
     \<and> length (tc_spanId x) = 8 \<and> \<not> allZero (tc_spanId x))"

text \<open>
  The carrier formatting of \<open>generateTraceParent\<close>, as the source has it:
  \<^verbatim>\<open>
  const version = new Uint8Array([0]);
  const versionHex = toHex(version);
  const traceIdHex = toHex(traceId);
  const spanIdHex = toHex(spanId);
  const flags = '01';
  const traceParent = `${versionHex}-${traceIdHex}-${spanIdHex}-${flags}`;
  \<close>
  Of a TraceContext it writes the two identifiers. The version is the constant
  byte 0 and the flags are the string literal \<^verbatim>\<open>'01'\<close>, whatever the version and
  the flags of the TraceContext are: the source has no other way to write them.
  The string that \<open>generateTraceParent\<close> returns is \<open>encode\<close> of the bytes it has
  drawn (lemma \<open>generateTraceParent_encode\<close> below).
\<close>

definition encode :: "TraceContext \<Rightarrow> string" where
  "encode x =
     (let version = [0];
          versionHex = toHex version;
          traceIdHex = toHex (tc_traceId x);
          spanIdHex = toHex (tc_spanId x);
          flags = ''01''
      in versionHex @ ''-'' @ traceIdHex @ ''-'' @ spanIdHex @ ''-'' @ flags)"

subsection \<open>Decoding\<close>

text \<open>
  Modelled from the spec: the decoder of Carrier strings, which belongs to the
  external instrumentation and has no code in this repository. Section 4.2 of the
  specification: given an arbitrary string, either parse it into a TraceContext
  or fail with \<open>InvalidFormat\<close> when the string does not have exactly four
  dash-separated fields, any field has the wrong character length, any field
  contains non-hexadecimal characters, the version field is an unsupported value
  (the single valid version is 0), or traceId or spanId decode to all-zero.
\<close>

datatype decode_error = InvalidFormat

text \<open>The fields of a string between the occurrences of a separator.\<close>

fun fields :: "char \<Rightarrow> string \<Rightarrow> string list" where
  "fields sep [] = [[]]"
| "fields sep (c # cs) =
     (if c = sep then [] # fields sep cs
      else case fields sep cs of
             [] \<Rightarrow> [[c]]
           | f # fs \<Rightarrow> (c # f) # fs)"

definition hexValue :: "char \<Rightarrow> nat option" where
  "hexValue c =
     map_of (zip ''0123456789abcdefABCDEF''
               [0, 1, 2, 3, 4, 5, 6, 7, 8, 9, 10, 11, 12, 13, 14, 15, 10, 11, 12, 13, 14, 15]) c"

fun fromHex :: "string \<Rightarrow> byte list option" where
  "fromHex [] = Some []"
| "fromHex [c] = None"
| "fromHex (h # l # cs) =
     (case (hexValue h, hexValue l, fromHex cs) of
        (Some a, Some b, Some bs) \<Rightarrow> Some (of_nat (16 * a + b) # bs)
      | _ \<Rightarrow> None)"

definition decode :: "string \<Rightarrow> decode_error + TraceContext" where
  "decode s =
     (case fields CHR ''-'' s of
        [v, t, p, f] \<Rightarrow>
          if length v \<noteq> 2 \<or> length t \<noteq> 32 \<or> length p \<noteq> 16 \<or> length f \<noteq> 2
          then Inl InvalidFormat
          else (case (fromHex v, fromHex t, fromHex p, fromHex f) of
                  (Some [ver], Some tid, Some sid, Some [fl]) \<Rightarrow>
                    if ver \<noteq> 0 then Inl InvalidFormat
                    else if allZero tid \<or> allZero sid then Inl InvalidFormat
                    else Inr \<lparr>tc_version = ver, tc_traceId = tid, tc_spanId = sid, tc_flags = fl\<rparr>
                | _ \<Rightarrow> Inl InvalidFormat)
      | _ \<Rightarrow> Inl InvalidFormat)"


section \<open>Example inputs\<close>

text \<open>
  The run shown in the README of the repository: the random source hands out
  the bytes of the trace identifier \<open>dd19a611e9ecea7586020b7ec57566d0\<close> and then
  those of the span identifier \<open>5b34ec95e459d3f7\<close>, for a \<open>GET\<close> of
  \<open>http://localhost:3000/\<close>. \<open>upstream_request\<close> is the same request from a caller
  that has set a \<open>traceparent\<close> header of its own, \<open>readme_context\<close> is the
  TraceContext of the README's identifiers, and \<open>external_context\<close> the one that
  the README shows arriving at the external API: the same trace identifier with
  the span identifier \<open>64b4b376938fc984\<close>.
\<close>

abbreviation readme_random :: random_source where
  "readme_random \<equiv> (\<lambda>i. [0xdd, 0x19, 0xa6, 0x11, 0xe9, 0xec, 0xea, 0x75, 0x86, 0x02, 0x0b, 0x7e,
      0xc5, 0x75, 0x66, 0xd0, 0x5b, 0x34, 0xec, 0x95, 0xe4, 0x59, 0xd3, 0xf7] ! (i mod 24))"

abbreviation readme_request :: NextRequest where
  "readme_request \<equiv> \<lparr>method = ''GET'', url = ''http://localhost:3000/'',
      headers = [''accept'' \<mapsto> ''text/html'']\<rparr>"

abbreviation readme_context :: TraceContext where
  "readme_context \<equiv> \<lparr>tc_version = 0,
     tc_traceId = [0xdd, 0x19, 0xa6, 0x11, 0xe9, 0xec, 0xea, 0x75, 0x86, 0x02, 0x0b, 0x7e,
                   0xc5, 0x75, 0x66, 0xd0],
     tc_spanId = [0x5b, 0x34, 0xec, 0x95, 0xe4, 0x59, 0xd3, 0xf7],
     tc_flags = 1\<rparr>"

abbreviation external_context :: TraceContext where
  "external_context \<equiv> \<lparr>tc_version = 0,
     tc_traceId = [0xdd, 0x19, 0xa6, 0x11, 0xe9, 0xec, 0xea, 0x75, 0x86, 0x02, 0x0b, 0x7e,
                   0xc5, 0x75, 0x66, 0xd0],
     tc_spanId = [0x64, 0xb4, 0xb3, 0x76, 0x93, 0x8f, 0xc9, 0x84],
     tc_flags = 1\<rparr>"

abbreviation upstream_request :: NextRequest where
  "upstream_request \<equiv> \<lparr>method = ''GET'', url = ''http://localhost:3000/'',
      headers = [''traceparent'' \<mapsto> ''00-4bf92f3577b34da6a3ce929d0e0e4736-00f067aa0ba902b7-01'']\<rparr>"


section \<open>Lemmas\<close>

subsection \<open>\<open>toHex\<close> writes two lowercase hexadecimal digits per byte\<close>

lemma toString16_byte:
  "n < 256 \<Longrightarrow> padStart 2 ''0'' (toString16 n) = [hexDigit (n div 16), hexDigit (n mod 16)]"
  apply (subst toString16.simps)
  apply (subst toString16.simps)
  apply (auto simp: padStart_def hexDigit_def)
  done

lemma unat_byte_less: "unat (b :: byte) < 256"
  using unsigned_less [of b, where 'a = nat] by simp

lemma toHex_Nil: "toHex [] = []"
  by (simp add: toHex_def)

lemma toHex_Cons:
  "toHex (b # bs) = hexDigit (unat b div 16) # hexDigit (unat b mod 16) # toHex bs"
  by (simp add: toHex_def toString16_byte unat_byte_less)

lemma toHex_append: "toHex (xs @ ys) = toHex xs @ toHex ys"
  by (simp add: toHex_def)

lemma length_toHex: "length (toHex bs) = 2 * length bs"
  by (induction bs) (simp_all add: toHex_Nil toHex_Cons)

lemma isLowerHex_hexDigit: "d < 16 \<Longrightarrow> isLowerHex (hexDigit d)"
  unfolding isLowerHex_def hexDigit_def by (rule nth_mem) simp

lemma toHex_lower: "list_all isLowerHex (toHex bs)"
  by (induction bs) (simp_all add: toHex_Nil toHex_Cons isLowerHex_hexDigit unat_byte_less div_less_iff_less_mult)

lemma matches_Hex:
  "list_all isLowerHex xs \<Longrightarrow> matches (Hex (length xs) # its) (xs @ s) = matches its s"
  by (induction xs) simp_all

lemma matches_toHex:
  "length bs = n \<Longrightarrow> matches (Hex (2 * n) # its) (toHex bs @ s) = matches its s"
  using matches_Hex [OF toHex_lower, of bs its s] by (simp add: length_toHex)

subsection \<open>What \<open>generateTraceParent\<close> returns\<close>

lemma getRandomValues_16:
  "getRandomValues (Uint8Array 16) rnd = Inr (map rnd [0..<16], \<lambda>i. rnd (16 + i))"
  by (simp add: getRandomValues_def Uint8Array_def)

lemma getRandomValues_8:
  "getRandomValues (Uint8Array 8) rnd = Inr (map rnd [0..<8], \<lambda>i. rnd (8 + i))"
  by (simp add: getRandomValues_def Uint8Array_def)

lemma toHex_zero: "toHex [0] = ''00''"
  by (simp add: toHex_Cons toHex_Nil hexDigit_def)

lemma generateTraceParent_eq:
  "generateTraceParent rnd =
     Inr (\<lparr>traceId = toHex (map rnd [0..<16]), spanId = toHex (map rnd [16..<24]),
           traceParent = ''00-'' @ toHex (map rnd [0..<16]) @ ''-'' @ toHex (map rnd [16..<24]) @ ''-01''\<rparr>,
          \<lambda>i. rnd (24 + i))"
proof -
  have "map rnd (map (\<lambda>i. i + 16) [0..<8]) = map rnd [16..<8 + 16]"
    by (simp only: map_add_upt)
  then have "map (\<lambda>i. rnd (16 + i)) [0..<8] = map rnd [16..<24]"
    by (simp only: map_map o_def add.commute [of 16]) simp
  then show ?thesis
    by (simp add: generateTraceParent_def getRandomValues_16 getRandomValues_8 toHex_zero Let_def add.assoc [symmetric])
qed

subsection \<open>Fields, digits and the encoding\<close>

lemma not_isLowerHex_dash: "\<not> isLowerHex CHR ''-''"
  by (simp add: isLowerHex_def)

lemma dash_notin_toHex: "CHR ''-'' \<notin> set (toHex bs)"
  using toHex_lower [of bs] not_isLowerHex_dash by (auto simp: list_all_iff)

lemma fields_no_sep: "sep \<notin> set xs \<Longrightarrow> fields sep xs = [xs]"
  by (induction xs) auto

lemma fields_append_sep:
  "sep \<notin> set xs \<Longrightarrow> fields sep (xs @ sep # r) = xs # fields sep r"
  by (induction xs) auto

lemma toHex_one: "toHex [1] = ''01''"
  by (simp add: toHex_Cons toHex_Nil hexDigit_def)

lemma encode_toHex:
  "encode x = toHex [0] @ ''-'' @ toHex (tc_traceId x) @ ''-''
                @ toHex (tc_spanId x) @ ''-'' @ toHex [1]"
  by (simp add: encode_def Let_def toHex_one)

lemma fields_encode:
  "fields CHR ''-'' (encode x)
     = [toHex [0], toHex (tc_traceId x), toHex (tc_spanId x), toHex [1]]"
  unfolding encode_toHex
  by (simp add: fields_append_sep fields_no_sep dash_notin_toHex)

lemma upt_16: "[0..<16] = [0, 1, 2, 3, 4, 5, 6, 7, 8, 9, 10, 11, 12, 13, 14, 15]"
  by code_simp

lemma hexValue_hexDigit_all:
  "list_all (\<lambda>d. hexValue (hexDigit d) = Some d) [0..<16]"
  unfolding upt_16 by (simp add: hexValue_def hexDigit_def)

lemma hexValue_hexDigit: "d < 16 \<Longrightarrow> hexValue (hexDigit d) = Some d"
  using hexValue_hexDigit_all by (simp add: list_all_iff del: upt_rec_numeral)

lemma byte_of_nibbles: "of_nat (16 * (unat b div 16) + unat b mod 16) = (b :: byte)"
  by simp

lemma byte_high_nibble: "unat (b :: byte) div 16 < 16"
  using unat_byte_less [of b] by (simp add: div_less_iff_less_mult)

lemma fromHex_toHex: "fromHex (toHex bs) = Some bs"
proof (induction bs)
  case Nil
  show ?case by (simp add: toHex_Nil)
next
  case (Cons b bs)
  have "hexValue (hexDigit (unat b div 16)) = Some (unat b div 16)"
    by (rule hexValue_hexDigit) (rule byte_high_nibble)
  moreover have "hexValue (hexDigit (unat b mod 16)) = Some (unat b mod 16)"
    by (rule hexValue_hexDigit) simp
  ultimately show ?case
    by (simp only: toHex_Cons fromHex.simps Cons.IH prod.case option.case byte_of_nibbles)
qed

lemma toHex_inj: "toHex xs = toHex ys \<Longrightarrow> xs = ys"
proof -
  assume "toHex xs = toHex ys"
  then have "fromHex (toHex xs) = fromHex (toHex ys)"
    by (rule arg_cong)
  then show ?thesis
    by (simp only: fromHex_toHex option.inject)
qed

lemma encode_inj_ids:
  "encode x = encode y \<Longrightarrow> tc_traceId x = tc_traceId y \<and> tc_spanId x = tc_spanId y"
proof -
  assume "encode x = encode y"
  then have "fields CHR ''-'' (encode x) = fields CHR ''-'' (encode y)"
    by simp
  then show ?thesis
    by (auto simp: fields_encode dest: toHex_inj)
qed

lemma encode_ignores_version_flags:
  "encode (x\<lparr>tc_version := v, tc_flags := f\<rparr>) = encode x"
  by (simp add: encode_def)

lemma decode_encode_valid: "valid x \<Longrightarrow> decode (encode x) = Inr (x\<lparr>tc_flags := 1\<rparr>)"
  by (simp add: decode_def fields_encode length_toHex fromHex_toHex valid_def)

lemma valid_readme_context: "valid readme_context"
  by (simp add: valid_def allZero_def)


lemma carrierGrammar_encode:
  "length (tc_traceId x) = 16 \<Longrightarrow> length (tc_spanId x) = 8 \<Longrightarrow> carrierGrammar (encode x)"
proof -
  assume t: "length (tc_traceId x) = 16" and s: "length (tc_spanId x) = 8"
  have 1: "matches (Hex 2 # its) (toHex [b] @ r) = matches its r" for its b r
    using matches_toHex [of "[b]" 1 its r] by simp
  have 2: "matches (Hex 32 # its) (toHex (tc_traceId x) @ r) = matches its r" for its r
    using matches_toHex [of "tc_traceId x" 16 its r] t by simp
  have 3: "matches (Hex 16 # its) (toHex (tc_spanId x) @ r) = matches its r" for its r
    using matches_toHex [of "tc_spanId x" 8 its r] s by simp
  have 4: "matches [Hex 2] (toHex [b]) = True" for b
    using 1 [of "[]" b "[]"] by simp
  show ?thesis
    unfolding carrierGrammar_def encode_toHex
    by (simp only: 1 2 3 4 matches.simps append_Cons append_Nil)
qed

subsection \<open>What \<open>middleware\<close> returns\<close>

lemma middleware_eq:
  "middleware req rt =
     Inr (NextResponse_next
            ((headers req)(''traceparent'' \<mapsto>
               ''00-'' @ toHex (map (crypto rt) [0..<16]) @ ''-''
                 @ toHex (map (crypto rt) [16..<24]) @ ''-01'')),
          rt\<lparr>crypto := \<lambda>i. crypto rt (24 + i),
             console := console rt @
               [''[Request log from middleware]'' @ TAB @ ''traceId=''
                  @ toHex (map (crypto rt) [0..<16]) @ TAB @ ''spanId=''
                  @ toHex (map (crypto rt) [16..<24]) @ TAB @ ''method='' @ method req
                  @ TAB @ ''url='' @ url req]\<rparr>)"
  by (simp add: middleware_def generateTraceParent_eq Let_def console_info_def
      Headers_new_def Headers_set_def toLowerCase_def del: upt_rec_numeral)

lemma Headers_get_traceparent: "Headers_get hs ''traceparent'' = hs ''traceparent''"
  by (simp add: Headers_get_def toLowerCase_def)

lemma generateTraceParent_encode:
  "generateTraceParent rnd =
     Inr (\<lparr>traceId = toHex (map rnd [0..<16]), spanId = toHex (map rnd [16..<24]),
           traceParent = encode \<lparr>tc_version = 0, tc_traceId = map rnd [0..<16],
                                  tc_spanId = map rnd [16..<24], tc_flags = 1\<rparr>\<rparr>,
          \<lambda>i. rnd (24 + i))"
  by (simp add: generateTraceParent_eq encode_def Let_def toHex_zero del: upt_rec_numeral)

subsection \<open>The example inputs, evaluated\<close>

lemma readme_traceId_bytes:
  "map readme_random [0..<16] = [0xdd, 0x19, 0xa6, 0x11, 0xe9, 0xec, 0xea, 0x75, 0x86, 0x02, 0x0b, 0x7e,
      0xc5, 0x75, 0x66, 0xd0]"
  unfolding upt_16 by simp

lemma readme_spanId_bytes:
  "map readme_random [16..<24] = [0x5b, 0x34, 0xec, 0x95, 0xe4, 0x59, 0xd3, 0xf7]"
  by simp

lemma readme_traceId_hex:
  "toHex [0xdd, 0x19, 0xa6, 0x11, 0xe9, 0xec, 0xea, 0x75, 0x86, 0x02, 0x0b, 0x7e,
      0xc5, 0x75, 0x66, 0xd0] = ''dd19a611e9ecea7586020b7ec57566d0''"
  by (simp add: toHex_Cons toHex_Nil hexDigit_def)

lemma readme_spanId_hex:
  "toHex [0x5b, 0x34, 0xec, 0x95, 0xe4, 0x59, 0xd3, 0xf7] = ''5b34ec95e459d3f7''"
  by (simp add: toHex_Cons toHex_Nil hexDigit_def)

lemma readme_generateTraceParent:
  "generateTraceParent readme_random =
     Inr (\<lparr>traceId = ''dd19a611e9ecea7586020b7ec57566d0'', spanId = ''5b34ec95e459d3f7'',
           traceParent = ''00-dd19a611e9ecea7586020b7ec57566d0-5b34ec95e459d3f7-01''\<rparr>,
          \<lambda>i. readme_random (24 + i))"
  unfolding generateTraceParent_eq
  by (simp only: readme_traceId_bytes readme_spanId_bytes readme_traceId_hex readme_spanId_hex) simp

lemma zero_hex_16: "toHex (map (\<lambda>i. 0) [0..<16]) = ''00000000000000000000000000000000''"
  unfolding upt_16 by (simp add: toHex_Cons toHex_Nil hexDigit_def)

lemma zero_hex_8: "toHex (map (\<lambda>i. 0) [16..<24]) = ''0000000000000000''"
  by (simp add: toHex_Cons toHex_Nil hexDigit_def)

lemma readme_middleware:
  "middleware req \<lparr>crypto = readme_random, console = out\<rparr> =
     Inr (NextResponse_next ((headers req)(''traceparent'' \<mapsto>
            ''00-dd19a611e9ecea7586020b7ec57566d0-5b34ec95e459d3f7-01'')),
          \<lparr>crypto = \<lambda>i. readme_random (24 + i),
           console = out @ [''[Request log from middleware]'' @ TAB
             @ ''traceId=dd19a611e9ecea7586020b7ec57566d0'' @ TAB
             @ ''spanId=5b34ec95e459d3f7'' @ TAB @ ''method='' @ method req
             @ TAB @ ''url='' @ url req]\<rparr>)"
  unfolding middleware_eq
  by (simp only: Runtime.simps readme_traceId_bytes readme_spanId_bytes readme_traceId_hex readme_spanId_hex) simp


section \<open>Properties of the Context Generator\<close>

text \<open>
  Claim C1. For every request and every random source, the middleware returns, and
  the value it sets on the \<open>traceparent\<close> header matches the grammar
  \<^verbatim>\<open>^[0-9a-f]{2}-[0-9a-f]{32}-[0-9a-f]{16}-[0-9a-f]{2}$\<close>: four lowercase-hex
  fields of widths 2, 32, 16 and 2, joined by \<^verbatim>\<open>-\<close>.
\<close>

theorem middleware_traceparent_wellformed:
  "\<exists>resp rt'. middleware req rt = Inr (resp, rt')
     \<and> (\<exists>v. Headers_get (forwarded resp) ''traceparent'' = Some v \<and> carrierGrammar v)"
proof -
  let ?x = "\<lparr>tc_version = 0, tc_traceId = map (crypto rt) [0..<16],
             tc_spanId = map (crypto rt) [16..<24], tc_flags = 1\<rparr>"
  have "carrierGrammar (encode ?x)"
    by (rule carrierGrammar_encode) simp_all
  moreover have "encode ?x = ''00-'' @ toHex (map (crypto rt) [0..<16]) @ ''-''
                 @ toHex (map (crypto rt) [16..<24]) @ ''-01''"
    by (simp add: encode_def Let_def toHex_zero del: upt_rec_numeral)
  ultimately show ?thesis
    by (simp add: middleware_eq Headers_get_traceparent del: upt_rec_numeral)
qed

theorem middleware_traceparent_wellformed_witness:
  "\<exists>resp rt'. middleware readme_request \<lparr>crypto = readme_random, console = []\<rparr> = Inr (resp, rt')
     \<and> Headers_get (forwarded resp) ''traceparent''
         = Some ''00-dd19a611e9ecea7586020b7ec57566d0-5b34ec95e459d3f7-01''
     \<and> carrierGrammar ''00-dd19a611e9ecea7586020b7ec57566d0-5b34ec95e459d3f7-01''"
  using middleware_traceparent_wellformed [of readme_request "\<lparr>crypto = readme_random, console = []\<rparr>"]
  by (auto simp add: readme_middleware Headers_get_traceparent)

text \<open>
  Claim C2 says that the all-zero trace identifier and span identifier are never
  generated, whatever the random source yields. The generator formats the random
  bytes as they come: on a random source that hands out zero bytes, both
  identifiers are all zero.
\<close>

theorem generateTraceParent_all_zero:
  "generateTraceParent (\<lambda>i. 0) =
     Inr (\<lparr>traceId = ''00000000000000000000000000000000'', spanId = ''0000000000000000'',
           traceParent = ''00-00000000000000000000000000000000-0000000000000000-01''\<rparr>,
          \<lambda>i. 0)"
  unfolding generateTraceParent_eq
  by (simp only: zero_hex_16 zero_hex_8) simp

text \<open>
  Claim C3. For every inbound request, with or without a \<open>traceparent\<close> header of
  its own, the \<open>traceparent\<close> header of the forwarded header set is the Carrier
  string that \<open>generateTraceParent\<close> has just produced from the random source. It
  is the same string whatever header set \<open>hs\<close> the request comes with, so it does
  not depend on an incoming \<open>traceparent\<close> value.
\<close>

theorem middleware_sets_fresh_traceparent:
  "\<exists>tp rnd' resp rt'. generateTraceParent (crypto rt) = Inr (tp, rnd')
     \<and> middleware req rt = Inr (resp, rt')
     \<and> Headers_get (forwarded resp) ''traceparent'' = Some (traceParent tp)
     \<and> (\<exists>resp2 rt2. middleware (req\<lparr>headers := hs\<rparr>) rt = Inr (resp2, rt2)
           \<and> Headers_get (forwarded resp2) ''traceparent'' = Some (traceParent tp))"
  by (simp add: middleware_eq generateTraceParent_eq Headers_get_traceparent del: upt_rec_numeral)

theorem middleware_sets_fresh_traceparent_witness:
  "\<exists>resp rt'. middleware upstream_request \<lparr>crypto = readme_random, console = []\<rparr> = Inr (resp, rt')
     \<and> Headers_get (forwarded resp) ''traceparent''
         = Some ''00-dd19a611e9ecea7586020b7ec57566d0-5b34ec95e459d3f7-01''"
  using middleware_sets_fresh_traceparent [of "\<lparr>crypto = readme_random, console = []\<rparr>" upstream_request]
  by (auto simp add: readme_generateTraceParent)

text \<open>
  Claim C4, as stated, fails: a request that already carries a \<open>traceparent\<close>
  header does not keep it. On the README's random source the upstream value is
  replaced by the generated one.
\<close>

theorem middleware_keeps_incoming_counterexample:
  "Headers_get (headers upstream_request) ''traceparent''
     = Some ''00-4bf92f3577b34da6a3ce929d0e0e4736-00f067aa0ba902b7-01''
   \<and> middleware upstream_request \<lparr>crypto = readme_random, console = []\<rparr>
     = Inr (NextResponse_next
              [''traceparent'' \<mapsto> ''00-dd19a611e9ecea7586020b7ec57566d0-5b34ec95e459d3f7-01''],
            \<lparr>crypto = \<lambda>i. readme_random (24 + i),
             console = [''[Request log from middleware]'' @ TAB
               @ ''traceId=dd19a611e9ecea7586020b7ec57566d0'' @ TAB
               @ ''spanId=5b34ec95e459d3f7'' @ TAB @ ''method=GET''
               @ TAB @ ''url=http://localhost:3000/'']\<rparr>)
   \<and> ''00-dd19a611e9ecea7586020b7ec57566d0-5b34ec95e459d3f7-01''
       \<noteq> ''00-4bf92f3577b34da6a3ce929d0e0e4736-00f067aa0ba902b7-01''"
  by (simp add: readme_middleware Headers_get_traceparent)

text \<open>
  Claim C4, amended. For every inbound request that already carries a
  \<open>traceparent\<close> header, the Context Generator replaces its value by the freshly
  generated Carrier string; the incoming value is what is forwarded only in the case
  that it equals the fresh string.
\<close>

theorem middleware_replaces_incoming_traceparent:
  "Headers_get (headers req) ''traceparent'' = Some v \<Longrightarrow>
   \<exists>tp rnd' resp rt'. generateTraceParent (crypto rt) = Inr (tp, rnd')
     \<and> middleware req rt = Inr (resp, rt')
     \<and> Headers_get (forwarded resp) ''traceparent'' = Some (traceParent tp)
     \<and> (Headers_get (forwarded resp) ''traceparent'' = Some v \<longleftrightarrow> v = traceParent tp)"
  by (auto simp add: middleware_eq generateTraceParent_eq Headers_get_traceparent simp del: upt_rec_numeral)

theorem middleware_replaces_incoming_traceparent_witness:
  "Headers_get (headers upstream_request) ''traceparent''
     = Some ''00-4bf92f3577b34da6a3ce929d0e0e4736-00f067aa0ba902b7-01''
   \<and> (\<exists>resp rt'. middleware upstream_request \<lparr>crypto = readme_random, console = []\<rparr> = Inr (resp, rt')
         \<and> Headers_get (forwarded resp) ''traceparent''
             = Some ''00-dd19a611e9ecea7586020b7ec57566d0-5b34ec95e459d3f7-01''
         \<and> Headers_get (forwarded resp) ''traceparent''
             \<noteq> Some ''00-4bf92f3577b34da6a3ce929d0e0e4736-00f067aa0ba902b7-01'')"
proof -
  have h: "Headers_get (headers upstream_request) ''traceparent''
     = Some ''00-4bf92f3577b34da6a3ce929d0e0e4736-00f067aa0ba902b7-01''"
    by (simp add: Headers_get_traceparent)
  from middleware_replaces_incoming_traceparent [OF h, of "\<lparr>crypto = readme_random, console = []\<rparr>"]
  show ?thesis
    using h by (auto simp add: readme_generateTraceParent)
qed

text \<open>
  Claim C5. For every request the middleware returns, and when it returns the
  response to forward, the console holds exactly one line more than before. The line
  is \<^verbatim>\<open>[Request log from middleware]\<close>, then, each after a tab,
  \<^verbatim>\<open>traceId=\<close>, \<^verbatim>\<open>spanId=\<close>, \<^verbatim>\<open>method=\<close> and \<^verbatim>\<open>url=\<close> with their values,
  where the two identifiers are the hex strings that stand in the \<open>traceparent\<close>
  header of the forwarded header set.
\<close>

theorem middleware_logs_once:
  "\<exists>tp rnd' resp rt'. generateTraceParent (crypto rt) = Inr (tp, rnd')
     \<and> middleware req rt = Inr (resp, rt')
     \<and> console rt' = console rt @
          [''[Request log from middleware]'' @ TAB @ ''traceId='' @ traceId tp
             @ TAB @ ''spanId='' @ spanId tp @ TAB @ ''method='' @ method req
             @ TAB @ ''url='' @ url req]
     \<and> Headers_get (forwarded resp) ''traceparent''
          = Some (''00-'' @ traceId tp @ ''-'' @ spanId tp @ ''-01'')"
  by (simp add: middleware_eq generateTraceParent_eq Headers_get_traceparent del: upt_rec_numeral)

theorem middleware_logs_once_witness:
  "\<exists>resp rt'. middleware readme_request \<lparr>crypto = readme_random, console = []\<rparr> = Inr (resp, rt')
     \<and> console rt' = [''[Request log from middleware]'' @ TAB
           @ ''traceId=dd19a611e9ecea7586020b7ec57566d0'' @ TAB
           @ ''spanId=5b34ec95e459d3f7'' @ TAB @ ''method=GET''
           @ TAB @ ''url=http://localhost:3000/'']
     \<and> Headers_get (forwarded resp) ''traceparent''
         = Some ''00-dd19a611e9ecea7586020b7ec57566d0-5b34ec95e459d3f7-01''"
  using middleware_logs_once [of "\<lparr>crypto = readme_random, console = []\<rparr>" readme_request]
  by (auto simp add: readme_generateTraceParent)

text \<open>
  Claim C9. For every inbound request, the forwarded header set is the request's
  with only \<open>traceparent\<close> changed: under every other name it holds the value the
  request held, and none where the request held none.
\<close>

theorem middleware_frame:
  "\<exists>resp rt'. middleware req rt = Inr (resp, rt')
     \<and> (\<forall>name. toLowerCase name \<noteq> ''traceparent'' \<longrightarrow>
            Headers_get (forwarded resp) name = Headers_get (headers req) name)"
  by (simp add: middleware_eq Headers_get_def del: upt_rec_numeral)

theorem middleware_frame_witness:
  "\<exists>resp rt'. middleware readme_request \<lparr>crypto = readme_random, console = []\<rparr> = Inr (resp, rt')
     \<and> toLowerCase ''Accept'' \<noteq> ''traceparent''
     \<and> Headers_get (forwarded resp) ''Accept'' = Some ''text/html''
     \<and> toLowerCase ''X-Other'' \<noteq> ''traceparent''
     \<and> Headers_get (forwarded resp) ''X-Other'' = None"
proof -
  from middleware_frame [of readme_request "\<lparr>crypto = readme_random, console = []\<rparr>"]
  obtain resp rt' where m: "middleware readme_request \<lparr>crypto = readme_random, console = []\<rparr> = Inr (resp, rt')"
    and f: "\<And>name. toLowerCase name \<noteq> ''traceparent'' \<Longrightarrow>
            Headers_get (forwarded resp) name = Headers_get (headers readme_request) name"
    by blast
  have a: "toLowerCase ''Accept'' \<noteq> ''traceparent''" and b: "toLowerCase ''X-Other'' \<noteq> ''traceparent''"
    by (simp_all add: toLowerCase_def)
  have "Headers_get (forwarded resp) ''Accept'' = Some ''text/html''"
    using f [OF a] by (simp add: Headers_get_def toLowerCase_def)
  moreover have "Headers_get (forwarded resp) ''X-Other'' = None"
    using f [OF b] by (simp add: Headers_get_def toLowerCase_def)
  ultimately show ?thesis
    using m a b by blast
qed


section \<open>Properties of the Carrier encoding\<close>

text \<open>
  Claim C7, as stated, fails for a valid TraceContext whose flags are not 01: the
  generator's formatting writes the flags as the literal \<^verbatim>\<open>'01'\<close>, so decoding
  the Carrier string of the README's context with flags 00 gives the context with
  flags 01, which is another one.
\<close>

theorem decode_encode_flags_counterexample:
  "valid (readme_context\<lparr>tc_flags := 0\<rparr>)
   \<and> encode (readme_context\<lparr>tc_flags := 0\<rparr>)
       = ''00-dd19a611e9ecea7586020b7ec57566d0-5b34ec95e459d3f7-01''
   \<and> decode (encode (readme_context\<lparr>tc_flags := 0\<rparr>)) = Inr readme_context
   \<and> decode (encode (readme_context\<lparr>tc_flags := 0\<rparr>)) \<noteq> Inr (readme_context\<lparr>tc_flags := 0\<rparr>)"
proof -
  have v: "valid (readme_context\<lparr>tc_flags := 0\<rparr>)"
    by (simp add: valid_def allZero_def)
  have e: "encode (readme_context\<lparr>tc_flags := 0\<rparr>)
       = ''00-dd19a611e9ecea7586020b7ec57566d0-5b34ec95e459d3f7-01''"
    by (simp add: encode_def Let_def toHex_zero readme_traceId_hex readme_spanId_hex)
  from decode_encode_valid [OF v] have d:
    "decode (encode (readme_context\<lparr>tc_flags := 0\<rparr>)) = Inr readme_context"
    by simp
  have n: "decode (encode (readme_context\<lparr>tc_flags := 0\<rparr>)) \<noteq> Inr (readme_context\<lparr>tc_flags := 0\<rparr>)"
    unfolding d by simp
  show ?thesis
    using v e d n by blast
qed

text \<open>
  Claim C7, amended. For every valid TraceContext (version 0, a trace identifier of
  16 bytes that are not all zero, a span identifier of 8 bytes that are not all
  zero), decoding the Carrier string that the generator's formatting gives for it
  yields the same version and identifiers with the flags 01. So the round trip
  gives the TraceContext back exactly when its flags are 01, the only flags the
  generator writes.
\<close>

theorem decode_encode_sampled:
  "valid x \<Longrightarrow>
     decode (encode x) = Inr (x\<lparr>tc_flags := 1\<rparr>)
     \<and> (decode (encode x) = Inr x \<longleftrightarrow> tc_flags x = 1)"
proof -
  assume v: "valid x"
  have d: "decode (encode x) = Inr (x\<lparr>tc_flags := 1\<rparr>)"
    using v by (rule decode_encode_valid)
  have "x\<lparr>tc_flags := 1\<rparr> = x \<longleftrightarrow> tc_flags x = 1"
    by (cases x) auto
  then show ?thesis
    using d by simp
qed

theorem decode_encode_sampled_witness:
  "valid readme_context
   \<and> tc_flags readme_context = 1
   \<and> encode readme_context = ''00-dd19a611e9ecea7586020b7ec57566d0-5b34ec95e459d3f7-01''
   \<and> decode ''00-dd19a611e9ecea7586020b7ec57566d0-5b34ec95e459d3f7-01'' = Inr readme_context"
proof -
  have e: "encode readme_context = ''00-dd19a611e9ecea7586020b7ec57566d0-5b34ec95e459d3f7-01''"
    by (simp add: encode_def Let_def toHex_zero readme_traceId_hex readme_spanId_hex)
  from decode_encode_sampled [OF valid_readme_context]
  have "decode (encode readme_context) = Inr readme_context"
    by simp
  then show ?thesis
    using valid_readme_context by (simp add: e)
qed

text \<open>
  Claim C8, as stated, fails in its injectivity: the generator's formatting writes
  the constant version 00 and the literal flags 01, so TraceContext values that
  differ only in their flags, or only in their version, have the same Carrier
  string.
\<close>

theorem encode_injective_counterexample:
  "readme_context \<noteq> readme_context\<lparr>tc_flags := 0\<rparr>
   \<and> encode readme_context = encode (readme_context\<lparr>tc_flags := 0\<rparr>)
   \<and> readme_context \<noteq> readme_context\<lparr>tc_version := 1\<rparr>
   \<and> encode readme_context = encode (readme_context\<lparr>tc_version := 1\<rparr>)"
  by (simp add: encode_def)

text \<open>
  Claim C8, amended. The Carrier encoding is total: the encoding of every valid
  TraceContext is a Carrier string of the grammar. It is injective in the two
  identifiers: TraceContext values with the same Carrier string have the same
  trace identifier and the same span identifier, so values that agree in version
  and flags (as all that the generator produces do, at version 0 and flags 01)
  and have the same Carrier string are equal. Version and flags themselves are not
  read from the value: they are written as 00 and 01.
\<close>

theorem encode_total_injective_ids:
  "(valid x \<longrightarrow> carrierGrammar (encode x))
   \<and> (encode x = encode y \<longrightarrow> tc_traceId x = tc_traceId y \<and> tc_spanId x = tc_spanId y)
   \<and> (encode x = encode y \<and> tc_version x = tc_version y \<and> tc_flags x = tc_flags y
        \<longrightarrow> x = y)"
proof -
  have "carrierGrammar (encode x)" if "valid x"
    using that by (auto simp: valid_def intro: carrierGrammar_encode)
  moreover have ids: "tc_traceId x = tc_traceId y \<and> tc_spanId x = tc_spanId y"
    if "encode x = encode y"
    using that by (rule encode_inj_ids)
  moreover have "x = y"
    if "encode x = encode y" "tc_version x = tc_version y" "tc_flags x = tc_flags y"
    using ids [OF that(1)] that(2,3) by simp
  ultimately show ?thesis
    by blast
qed

theorem encode_total_injective_ids_witness:
  "valid readme_context
   \<and> carrierGrammar (encode readme_context)
   \<and> tc_version external_context = tc_version readme_context
   \<and> tc_flags external_context = tc_flags readme_context
   \<and> external_context \<noteq> readme_context
   \<and> encode external_context \<noteq> encode readme_context"
proof -
  have d: "external_context \<noteq> readme_context"
    by simp
  from encode_total_injective_ids [of readme_context external_context]
  show ?thesis
    using valid_readme_context d by auto
qed


section \<open>Properties of the Context Reader\<close>

text \<open>
  Claim C6. Called with no active span in the ambient context, the Context Reader
  returns exactly the pair with \<open>traceId = "null"\<close> and \<open>spanId = "null"\<close>. The model
  has no failing branch, as the source has none: the result is a value for every
  context.
\<close>

theorem getIds_no_active_span:
  "getSpan active = None \<Longrightarrow> getIds active = \<lparr>traceId = ''null'', spanId = ''null''\<rparr>"
  by (simp add: getIds_def)

theorem getIds_no_active_span_witness:
  "getSpan (Context None) = None
   \<and> getIds (Context None) = \<lparr>traceId = ''null'', spanId = ''null''\<rparr>"
  using getIds_no_active_span [of "Context None"] by simp

text \<open>
  Claim C10, as stated, fails in its last part: a span object can be present and
  the result still be the sentinel pair, namely when the span context itself
  carries the strings \<open>"null"\<close>, since the fields are passed on unvalidated.
\<close>

theorem getIds_sentinel_with_span_counterexample:
  "getSpan (Context (Some (Span \<lparr>traceId = ''null'', spanId = ''null'', traceFlags = 0\<rparr>))) \<noteq> None
   \<and> getIds (Context (Some (Span \<lparr>traceId = ''null'', spanId = ''null'', traceFlags = 0\<rparr>)))
       = \<lparr>traceId = ''null'', spanId = ''null''\<rparr>"
  by (simp add: getIds_def)

text \<open>
  Claim C10, amended. Whenever a span object is present, the Context Reader returns
  exactly the \<open>traceId\<close> and \<open>spanId\<close> of its span context, unmodified and
  unvalidated (so all-zero identifiers come back as the all-zero strings). The
  result is the sentinel pair exactly when no span object is present or the
  present span's own context carries \<open>"null"\<close> in both fields.
\<close>

theorem getIds_active_span:
  "(\<forall>sp. getSpan active = Some sp \<longrightarrow>
      getIds active = \<lparr>traceId = traceId (spanContext sp), spanId = spanId (spanContext sp)\<rparr>)
   \<and> (getIds active = \<lparr>traceId = ''null'', spanId = ''null''\<rparr> \<longleftrightarrow>
        (case getSpan active of
           None \<Rightarrow> True
         | Some sp \<Rightarrow> traceId (spanContext sp) = ''null'' \<and> spanId (spanContext sp) = ''null''))"
  by (cases active) (auto simp: getIds_def split: option.splits)

theorem getIds_active_span_witness:
  "getSpan (Context (Some (Span \<lparr>traceId = ''00000000000000000000000000000000'',
        spanId = ''0000000000000000'', traceFlags = 0\<rparr>)))
     = Some (Span \<lparr>traceId = ''00000000000000000000000000000000'',
        spanId = ''0000000000000000'', traceFlags = 0\<rparr>)
   \<and> getIds (Context (Some (Span \<lparr>traceId = ''00000000000000000000000000000000'',
        spanId = ''0000000000000000'', traceFlags = 0\<rparr>)))
     = \<lparr>traceId = ''00000000000000000000000000000000'', spanId = ''0000000000000000''\<rparr>
   \<and> getIds (Context (Some (Span \<lparr>traceId = ''00000000000000000000000000000000'',
        spanId = ''0000000000000000'', traceFlags = 0\<rparr>)))
     \<noteq> \<lparr>traceId = ''null'', spanId = ''null''\<rparr>"
  using getIds_active_span [of "Context (Some (Span \<lparr>traceId = ''00000000000000000000000000000000'',
        spanId = ''0000000000000000'', traceFlags = 0\<rparr>))"]
  by simp

end
